theory Spec2Isabelle
  imports Main
begin

section \<open>Data model\<close>

text \<open>
  The wallet adapters are objects owned by the host application; the session manager only
  keeps references to them. An adapter reference is an address into a store of adapter
  objects (\<open>heap\<close> below). Account keys and network descriptions are opaque to this
  layer and are carried as strings.
\<close>

type_synonym aref = nat
type_synonym WalletName = string
type_synonym AccountKeys = string
type_synonym NetworkInfo = string
type_synonym TransactionPayload = string
type_synonym Response = string

datatype WalletReadyState = Installed | NotDetected | Loadable | Unsupported

datatype WalletError =
    WalletNotSelectedError
  | WalletNotReadyError
  | WalletNotConnectedError
  | AdapterError string

text \<open>
  Function objects that the session manager registers as listeners. The four handlers are
  constants of one \<open>useWallets\<close> instance; every evaluation of the arrow expression
  \<open>(isReady) => handleReadyStateChange(wAdapter, isReady)\<close> is a new function object,
  told apart by a serial number, and remembers the adapter it closed over.
\<close>

datatype listener_fn =
    HandleAddressChange
  | HandleNetworkChange
  | HandleDisconnect
  | HandleError
  | ReadyStateArrow nat aref

datatype event_name =
    ReadyStateChangeEv | AccountChangeEv | NetworkChangeEv | DisconnectEv | ErrorEv

datatype emitted =
    EReadyStateChange WalletReadyState
  | EAccountChange
  | ENetworkChange
  | EDisconnect
  | EError WalletError

record adapter_obj =
  a_name :: WalletName
  a_url :: "string option"
  a_readyState :: WalletReadyState
  a_connected :: bool
  a_publicAccount :: "AccountKeys option"
  a_network :: "NetworkInfo option"
  a_listeners :: "(event_name \<times> listener_fn \<times> aref) list"

text \<open>
  A \<open>Wallet\<close> is the object \<open>{adapter, readyState}\<close>; \<open>w_id\<close> is its object identity
  (two objects with the same fields are still two objects).
\<close>

record Wallet =
  w_id :: nat
  w_adapter :: aref
  w_readyState :: WalletReadyState

record UseWalletsProvider =
  o_wallets :: "aref list option"
  o_onError :: "nat option"
  o_localStorageKey :: "string option"
  o_autoConnect :: "bool option"

datatype adapter_call =
    CallConnect aref
  | CallDisconnect aref
  | CallOnAccountChange aref
  | CallOnNetworkChange aref
  | CallSignAndSubmitTransaction aref TransactionPayload "string option"
  | CallSignTransaction aref TransactionPayload "string option"
  | CallSignMessage aref string

datatype sink = Handler nat | ConsoleLog

datatype caller = ByCaller | ByAutoConnect

text \<open>
  What an asynchronous operation gives its caller at the point where control returns:
  \<open>Returned\<close> (the promise is fulfilled without a call to the adapter), \<open>Rejected e\<close>
  (the promise is rejected with \<open>e\<close>), or \<open>Pending\<close> (suspended on the adapter's promise).
\<close>

datatype call_result = Returned | Rejected WalletError | Pending

text \<open>
  The state of one \<open>useWallets()\<close> instance: its refs (the first fourteen fields, named as
  in the source), the environment it acts on (adapter objects, \<open>localStorage\<close>, whether a
  \<open>window\<close> exists), what it did to the outside (handler calls, adapter method calls,
  opened URLs), and the suspended calls and registered watcher clean-up.
  \<open>localStorage = None\<close> is a storage whose every access throws. The only writer of the
  selection key is this program, so the stored text is \<open>JSON.stringify name\<close> and is
  represented by the name it parses back to.
\<close>

record state =
  adapters :: "aref list"
  localStorageKey :: string
  autoConnect :: bool
  onError :: "nat option"
  walletName :: "WalletName option"
  wallet :: "Wallet option"
  adapter :: "aref option"
  account :: "AccountKeys option"
  connected :: bool
  connecting :: bool
  disconnecting :: bool
  readyState :: WalletReadyState
  walletNetwork :: "NetworkInfo option"
  wallets :: "Wallet list"
  heap :: "aref \<Rightarrow> adapter_obj"
  localStorage :: "(string \<rightharpoonup> WalletName) option"
  hasWindow :: bool
  handled :: "(sink \<times> WalletError) list"
  calls :: "adapter_call list"
  opened :: "string list"
  pendingConnects :: "caller list"
  pendingDisconnects :: nat
  cleanupSet :: bool
  nextFn :: nat
  nextObj :: nat

section \<open>The adapters' event emitter\<close>

text \<open>
  Modelled from the spec: the adapters' event subscribe and unsubscribe operations
  (\<open>on\<close>, \<open>off\<close>) of the adapter capability interface; the emitter is part of the adapter
  library and not of these sources. \<open>on\<close> appends a registration (event, function object,
  context), the context being the emitter itself when none is given; \<open>off\<close> removes the registrations of the event that hold that very function
  object and, when a context is given, that context.
\<close>

definition adapter_on :: "state \<Rightarrow> aref \<Rightarrow> event_name \<Rightarrow> listener_fn \<Rightarrow> aref \<Rightarrow> state" where
  "adapter_on s a e f ctx =
     s\<lparr>heap := (heap s)(a := (heap s a)\<lparr>a_listeners := a_listeners (heap s a) @ [(e, f, ctx)]\<rparr>)\<rparr>"

definition off_matches :: "event_name \<Rightarrow> listener_fn \<Rightarrow> aref option \<Rightarrow> event_name \<times> listener_fn \<times> aref \<Rightarrow> bool" where
  "off_matches e f ctx l =
     (fst l = e \<and> fst (snd l) = f \<and> (case ctx of None \<Rightarrow> True | Some c \<Rightarrow> snd (snd l) = c))"

definition adapter_off :: "state \<Rightarrow> aref \<Rightarrow> event_name \<Rightarrow> listener_fn \<Rightarrow> aref option \<Rightarrow> state" where
  "adapter_off s a e f ctx =
     s\<lparr>heap := (heap s)(a := (heap s a)\<lparr>a_listeners :=
          filter (\<lambda>l. \<not> off_matches e f ctx l) (a_listeners (heap s a))\<rparr>)\<rparr>"

section \<open>The session manager (\<open>useWallets\<close>)\<close>

text \<open>JavaScript truthiness of a string or null: neither null nor empty.\<close>

definition truthy :: "string option \<Rightarrow> bool" where
  "truthy v = (case v of None \<Rightarrow> False | Some x \<Rightarrow> x \<noteq> [])"

text \<open>\<open>Array.prototype.findIndex\<close>; \<open>None\<close> stands for the result \<open>-1\<close>.\<close>

fun findIndex :: "('a \<Rightarrow> bool) \<Rightarrow> 'a list \<Rightarrow> nat option" where
  "findIndex P [] = None"
| "findIndex P (x # xs) =
     (if P x then Some 0 else (case findIndex P xs of None \<Rightarrow> None | Some i \<Rightarrow> Some (Suc i)))"

definition getWalletNameFromLocalStorage :: "state \<Rightarrow> string \<Rightarrow> WalletName option" where
  "getWalletNameFromLocalStorage s key =
     (case localStorage s of None \<Rightarrow> None | Some m \<Rightarrow> m key)"

text \<open>The state of a new instance, in a given environment.\<close>

definition useWallets :: "(aref \<Rightarrow> adapter_obj) \<Rightarrow> (string \<rightharpoonup> WalletName) option \<Rightarrow> bool \<Rightarrow> state" where
  "useWallets h ls w =
     \<lparr>adapters = [], localStorageKey = ''walletName'', autoConnect = False, onError = None,
      walletName = None, wallet = None, adapter = None, account = None,
      connected = False, connecting = False, disconnecting = False,
      readyState = Unsupported, walletNetwork = None, wallets = [],
      heap = h, localStorage = ls, hasWindow = w,
      handled = [], calls = [], opened = [],
      pendingConnects = [], pendingDisconnects = 0, cleanupSet = False,
      nextFn = 0, nextObj = 0\<rparr>"

definition init :: "state \<Rightarrow> UseWalletsProvider \<Rightarrow> state" where
  "init s opts =
     (let s1 = s\<lparr>adapters := (case o_wallets opts of None \<Rightarrow> [] | Some ws \<Rightarrow> ws)\<rparr>;
          s2 = (case o_localStorageKey opts of
                  None \<Rightarrow> s1
                | Some lsKey \<Rightarrow> if lsKey \<noteq> [] then s1\<lparr>localStorageKey := lsKey\<rparr> else s1);
          s3 = (case o_autoConnect opts of None \<Rightarrow> s2 | Some b \<Rightarrow> s2\<lparr>autoConnect := b\<rparr>)
      in if onError s3 \<noteq> None then s3\<lparr>onError := o_onError opts\<rparr> else s3)"

definition setDefaultState :: "state \<Rightarrow> state" where
  "setDefaultState s =
     s\<lparr>wallet := None, adapter := None, account := None, connected := False,
       walletNetwork := None\<rparr>"

text \<open>
  \<open>handleReadyStateChange\<close>: the entry found by the adapter's name is replaced by a new
  object; the two slices keep the other entries as they are.
\<close>

definition handleReadyStateChange :: "state \<Rightarrow> aref \<Rightarrow> WalletReadyState \<Rightarrow> state" where
  "handleReadyStateChange s current isReadyState =
     (case findIndex (\<lambda>prevWallet. a_name (heap s (w_adapter prevWallet)) = a_name (heap s current))
             (wallets s) of
        None \<Rightarrow> s
      | Some index \<Rightarrow>
          (let currentWallet = wallets s ! index
           in s\<lparr>wallets := take index (wallets s)
                   @ [\<lparr>w_id = nextObj s, w_adapter = w_adapter currentWallet,
                        w_readyState = isReadyState\<rparr>]
                   @ drop (index + 1) (wallets s),
                 nextObj := nextObj s + 1\<rparr>))"

text \<open>
  The watcher of \<open>adapters\<close>. Its clean-up, registered by the previous run, runs first and
  reads \<open>adapters.value\<close> as it is then, that is the new list; it passes \<open>off\<close> a newly
  created arrow function for each adapter. The body then rebuilds \<open>wallets\<close> and registers
  a newly created arrow function on each adapter.
\<close>

definition cleanup_one :: "aref \<Rightarrow> state \<Rightarrow> state" where
  "cleanup_one wAdapter s =
     adapter_off (s\<lparr>nextFn := nextFn s + 1\<rparr>) wAdapter ReadyStateChangeEv
       (ReadyStateArrow (nextFn s) wAdapter) (Some wAdapter)"

definition subscribe_one :: "aref \<Rightarrow> state \<Rightarrow> state" where
  "subscribe_one wAdapter s =
     adapter_on (s\<lparr>nextFn := nextFn s + 1\<rparr>) wAdapter ReadyStateChangeEv
       (ReadyStateArrow (nextFn s) wAdapter) wAdapter"

definition snapshot_one :: "aref \<Rightarrow> state \<Rightarrow> state" where
  "snapshot_one adpt s =
     s\<lparr>wallets := wallets s @ [\<lparr>w_id = nextObj s, w_adapter = adpt,
                                w_readyState = a_readyState (heap s adpt)\<rparr>],
       nextObj := nextObj s + 1\<rparr>"

definition watch_adapters :: "state \<Rightarrow> state" where
  "watch_adapters s =
     (let s1 = (if cleanupSet s then fold cleanup_one (adapters s) s else s);
          s2 = fold snapshot_one (adapters s1) (s1\<lparr>wallets := []\<rparr>);
          s3 = fold subscribe_one (adapters s2) s2
      in s3\<lparr>cleanupSet := True\<rparr>)"

definition handleAddressChange :: "state \<Rightarrow> state" where
  "handleAddressChange s =
     (case adapter s of None \<Rightarrow> s | Some a \<Rightarrow> s\<lparr>account := a_publicAccount (heap s a)\<rparr>)"

definition handleNetworkChange :: "state \<Rightarrow> state" where
  "handleNetworkChange s =
     (case adapter s of None \<Rightarrow> s | Some a \<Rightarrow> s\<lparr>walletNetwork := a_network (heap s a)\<rparr>)"

text \<open>
  \<open>setWalletName\<close> (exported as \<open>select\<close>). When the storage throws, the assignment to
  \<open>walletName\<close> that follows the storage call is not reached; the exception is caught
  (and written to the console, which is not part of the state).
\<close>

definition setWalletName :: "state \<Rightarrow> WalletName option \<Rightarrow> state" where
  "setWalletName s name =
     (case localStorage s of
        None \<Rightarrow> s
      | Some m \<Rightarrow>
          (case name of
             None \<Rightarrow> s\<lparr>localStorage := Some (m(localStorageKey s := None)), walletName := None\<rparr>
           | Some n \<Rightarrow> s\<lparr>localStorage := Some (m(localStorageKey s \<mapsto> n)), walletName := Some n\<rparr>))"

definition handleAfterConnect :: "state \<Rightarrow> state" where
  "handleAfterConnect s =
     (case adapter s of
        None \<Rightarrow> s
      | Some a \<Rightarrow>
          (let s1 = adapter_on s a AccountChangeEv HandleAddressChange a;
               s2 = adapter_on s1 a NetworkChangeEv HandleNetworkChange a;
               s3 = adapter_on s2 a DisconnectEv HandleDisconnect a;
               s4 = adapter_on s3 a ErrorEv HandleError a
           in s4\<lparr>calls := calls s4 @ [CallOnAccountChange a, CallOnNetworkChange a]\<rparr>))"

definition handleDisconnect :: "state \<Rightarrow> state" where
  "handleDisconnect s =
     (let s0 = setWalletName s None
      in case adapter s0 of
           None \<Rightarrow> s0
         | Some a \<Rightarrow>
             (let s1 = adapter_off s0 a AccountChangeEv HandleAddressChange None;
                  s2 = adapter_off s1 a NetworkChangeEv HandleNetworkChange None;
                  s3 = adapter_off s2 a DisconnectEv HandleDisconnect None;
                  s4 = adapter_off s3 a ErrorEv HandleError None
              in setDefaultState s4))"

definition handleError :: "state \<Rightarrow> WalletError \<Rightarrow> state" where
  "handleError s error =
     (if onError s \<noteq> None
      then s\<lparr>handled := handled s @
               [(case onError s of Some h \<Rightarrow> Handler h | None \<Rightarrow> ConsoleLog, error)]\<rparr>
      else s)"

text \<open>
  \<open>connect\<close>, up to its first suspension. The caller tag only records who awaits the
  promise (the auto-connect watcher catches a rejection, a direct caller receives it).
  After the first \<open>throw\<close> the found wallet is defined, so the \<open>else\<close> branch of
  \<open>if (selectedWallet)\<close> cannot be taken.
\<close>

definition connect_as :: "caller \<Rightarrow> state \<Rightarrow> call_result \<times> state" where
  "connect_as c s =
     (if connecting s \<or> disconnecting s \<or> connected s then (Returned, s)
      else
        (case List.find (\<lambda>wAdapter. Some (a_name (heap s (w_adapter wAdapter))) = walletName s)
                (wallets s) of
           None \<Rightarrow> (Rejected WalletNotSelectedError, handleError s WalletNotSelectedError)
         | Some selectedWallet \<Rightarrow>
             (let a = w_adapter selectedWallet;
                  s1 = s\<lparr>wallet := Some selectedWallet, adapter := Some a,
                         connected := a_connected (heap s a),
                         account := a_publicAccount (heap s a),
                         walletNetwork := a_network (heap s a)\<rparr>
              in if \<not> (a_readyState (heap s1 a) = Installed \<or> a_readyState (heap s1 a) = Loadable)
                 then
                   (let s2 = setWalletName s1 None;
                        s3 = (case a_url (heap s2 a) of
                                None \<Rightarrow> s2
                              | Some url \<Rightarrow>
                                  if hasWindow s2 \<and> url \<noteq> []
                                  then s2\<lparr>opened := opened s2 @ [url]\<rparr> else s2)
                    in (Rejected WalletNotReadyError, handleError s3 WalletNotReadyError))
                 else
                   (Pending, s1\<lparr>connecting := True,
                                calls := calls s1 @ [CallConnect a],
                                pendingConnects := pendingConnects s1 @ [c]\<rparr>))))"

definition connect :: "state \<Rightarrow> call_result \<times> state" where
  "connect s = connect_as ByCaller s"

text \<open>
  The rest of \<open>connect\<close>, run when the adapter's promise settles: \<open>None\<close> when it is
  fulfilled, \<open>Some e\<close> when it is rejected with \<open>e\<close>.
\<close>

definition connect_resume :: "state \<Rightarrow> WalletError option \<Rightarrow> call_result \<times> state" where
  "connect_resume s r =
     (case r of
        None \<Rightarrow> (Returned, (handleAfterConnect s)\<lparr>connecting := False\<rparr>)
      | Some e \<Rightarrow> (Rejected e, (setWalletName s None)\<lparr>connecting := False\<rparr>))"

definition disconnect :: "state \<Rightarrow> call_result \<times> state" where
  "disconnect s =
     (if disconnecting s then (Returned, s)
      else
        (case adapter s of
           None \<Rightarrow> (Returned, setWalletName s None)
         | Some a \<Rightarrow>
             (Pending, s\<lparr>disconnecting := True,
                          calls := calls s @ [CallDisconnect a],
                          pendingDisconnects := Suc (pendingDisconnects s)\<rparr>)))"

definition disconnect_resume :: "state \<Rightarrow> WalletError option \<Rightarrow> call_result \<times> state" where
  "disconnect_resume s r =
     (case r of
        None \<Rightarrow> (Returned, handleDisconnect (s\<lparr>disconnecting := False\<rparr>))
      | Some e \<Rightarrow> (Rejected e, handleDisconnect ((setWalletName s None)\<lparr>disconnecting := False\<rparr>)))"

text \<open>The three remaining watchers.\<close>

definition watch_readyState_one :: "Wallet \<Rightarrow> state \<Rightarrow> state" where
  "watch_readyState_one item s =
     (if walletName s = Some (a_name (heap s (w_adapter item)))
      then s\<lparr>readyState := a_readyState (heap s (w_adapter item))\<rparr> else s)"

definition watch_readyState :: "state \<Rightarrow> state" where
  "watch_readyState s = fold watch_readyState_one (wallets s) s"

definition watch_walletName :: "state \<Rightarrow> state" where
  "watch_walletName s = s\<lparr>walletName := getWalletNameFromLocalStorage s (localStorageKey s)\<rparr>"

definition watch_autoConnect :: "state \<Rightarrow> state" where
  "watch_autoConnect s =
     (if connecting s \<or> connected s \<or> \<not> truthy (walletName s) \<or> \<not> autoConnect s
         \<or> readyState s = Unsupported
      then s
      else (case connect_as ByAutoConnect s of
              (Rejected error, s') \<Rightarrow> handleError s' error
            | (_, s') \<Rightarrow> s'))"

text \<open>
  The transaction operations. \<open>outcome\<close> is what the adapter's promise settles to:
  \<open>Inr\<close> the response, \<open>Inl\<close> the error it rejects with.
\<close>

definition signAndSubmitTransaction ::
  "state \<Rightarrow> TransactionPayload \<Rightarrow> string option \<Rightarrow> WalletError + Response
     \<Rightarrow> (WalletError + Response) \<times> state" where
  "signAndSubmitTransaction s transaction option' outcome =
     (case adapter s of
        None \<Rightarrow> (Inl WalletNotSelectedError, handleError s WalletNotSelectedError)
      | Some a \<Rightarrow>
          if \<not> connected s then (Inl WalletNotConnectedError, handleError s WalletNotConnectedError)
          else (outcome, s\<lparr>calls := calls s @ [CallSignAndSubmitTransaction a transaction option']\<rparr>))"

definition signTransaction ::
  "state \<Rightarrow> TransactionPayload \<Rightarrow> string option \<Rightarrow> WalletError + Response
     \<Rightarrow> (WalletError + Response) \<times> state" where
  "signTransaction s transaction option' outcome =
     (case adapter s of
        None \<Rightarrow> (Inl WalletNotSelectedError, handleError s WalletNotSelectedError)
      | Some a \<Rightarrow>
          if \<not> connected s then (Inl WalletNotConnectedError, handleError s WalletNotConnectedError)
          else (outcome, s\<lparr>calls := calls s @ [CallSignTransaction a transaction option']\<rparr>))"

definition signMessage ::
  "state \<Rightarrow> string \<Rightarrow> WalletError + Response \<Rightarrow> (WalletError + Response) \<times> state" where
  "signMessage s msgPayload outcome =
     (case adapter s of
        None \<Rightarrow> (Inl WalletNotSelectedError, handleError s WalletNotSelectedError)
      | Some a \<Rightarrow>
          if \<not> connected s then (Inl WalletNotConnectedError, handleError s WalletNotConnectedError)
          else (outcome, s\<lparr>calls := calls s @ [CallSignMessage a msgPayload]\<rparr>))"

section \<open>Executions\<close>

text \<open>
  One event is one uninterrupted run of code on the event loop: a call of the public
  interface, the resumption of a suspended \<open>connect\<close> or \<open>disconnect\<close> when the adapter's
  promise settles, a watcher job, an adapter emitting an event to its listeners, or an
  adapter changing its own fields. A watcher job may stand anywhere in an execution; the
  schedules of the reactive runtime are among these.
\<close>

definition event_of :: "emitted \<Rightarrow> event_name" where
  "event_of ev =
     (case ev of
        EReadyStateChange _ \<Rightarrow> ReadyStateChangeEv
      | EAccountChange \<Rightarrow> AccountChangeEv
      | ENetworkChange \<Rightarrow> NetworkChangeEv
      | EDisconnect \<Rightarrow> DisconnectEv
      | EError _ \<Rightarrow> ErrorEv)"

definition call_listener :: "emitted \<Rightarrow> listener_fn \<Rightarrow> state \<Rightarrow> state" where
  "call_listener ev f s =
     (case f of
        HandleAddressChange \<Rightarrow> handleAddressChange s
      | HandleNetworkChange \<Rightarrow> handleNetworkChange s
      | HandleDisconnect \<Rightarrow> handleDisconnect s
      | HandleError \<Rightarrow> (case ev of EError e \<Rightarrow> handleError s e | _ \<Rightarrow> s)
      | ReadyStateArrow _ wAdapter \<Rightarrow>
          (case ev of EReadyStateChange r \<Rightarrow> handleReadyStateChange s wAdapter r | _ \<Rightarrow> s))"

text \<open>The emitter calls the listeners registered at the time of the emission, in order.\<close>

definition emit :: "state \<Rightarrow> aref \<Rightarrow> emitted \<Rightarrow> state" where
  "emit s a ev =
     fold (call_listener ev)
       (map (\<lambda>l. fst (snd l)) (filter (\<lambda>l. fst l = event_of ev) (a_listeners (heap s a)))) s"

definition adapter_changes ::
  "state \<Rightarrow> aref \<Rightarrow> WalletReadyState \<Rightarrow> bool \<Rightarrow> AccountKeys option \<Rightarrow> NetworkInfo option \<Rightarrow> state" where
  "adapter_changes s a r c p n =
     s\<lparr>heap := (heap s)(a := (heap s a)\<lparr>a_readyState := r, a_connected := c,
                                       a_publicAccount := p, a_network := n\<rparr>)\<rparr>"

datatype event =
    Init UseWalletsProvider
  | WatchAdapters
  | WatchReadyState
  | WatchWalletName
  | WatchAutoConnect
  | Select "WalletName option"
  | Connect
  | ConnectSettles nat "WalletError option"
  | Disconnect
  | DisconnectSettles "WalletError option"
  | SignAndSubmitTransaction TransactionPayload "string option" "WalletError + Response"
  | SignTransaction TransactionPayload "string option" "WalletError + Response"
  | SignMessage string "WalletError + Response"
  | AdapterEmits aref emitted
  | AdapterChanges aref WalletReadyState bool "AccountKeys option" "NetworkInfo option"

text \<open>
  \<open>ConnectSettles i r\<close> resumes the \<open>i\<close>-th suspended \<open>connect\<close>; a rejection reaches the
  auto-connect watcher's \<open>catch\<close>, which calls \<open>handleError\<close>, when that watcher made the call.
\<close>

definition connect_settles :: "state \<Rightarrow> nat \<Rightarrow> WalletError option \<Rightarrow> state" where
  "connect_settles s i r =
     (if i < length (pendingConnects s)
      then (let c = pendingConnects s ! i;
                s0 = s\<lparr>pendingConnects := take i (pendingConnects s) @ drop (Suc i) (pendingConnects s)\<rparr>
            in case connect_resume s0 r of
                 (Rejected error, s') \<Rightarrow> (if c = ByAutoConnect then handleError s' error else s')
               | (_, s') \<Rightarrow> s')
      else s)"

definition disconnect_settles :: "state \<Rightarrow> WalletError option \<Rightarrow> state" where
  "disconnect_settles s r =
     (if 0 < pendingDisconnects s
      then snd (disconnect_resume (s\<lparr>pendingDisconnects := pendingDisconnects s - 1\<rparr>) r)
      else s)"

definition step :: "event \<Rightarrow> state \<Rightarrow> state" where
  "step e s =
     (case e of
        Init opts \<Rightarrow> init s opts
      | WatchAdapters \<Rightarrow> watch_adapters s
      | WatchReadyState \<Rightarrow> watch_readyState s
      | WatchWalletName \<Rightarrow> watch_walletName s
      | WatchAutoConnect \<Rightarrow> watch_autoConnect s
      | Select name \<Rightarrow> setWalletName s name
      | Connect \<Rightarrow> snd (connect s)
      | ConnectSettles i r \<Rightarrow> connect_settles s i r
      | Disconnect \<Rightarrow> snd (disconnect s)
      | DisconnectSettles r \<Rightarrow> disconnect_settles s r
      | SignAndSubmitTransaction tx opt out \<Rightarrow> snd (signAndSubmitTransaction s tx opt out)
      | SignTransaction tx opt out \<Rightarrow> snd (signTransaction s tx opt out)
      | SignMessage m out \<Rightarrow> snd (signMessage s m out)
      | AdapterEmits a ev \<Rightarrow> emit s a ev
      | AdapterChanges a r c p n \<Rightarrow> adapter_changes s a r c p n)"

fun run :: "event list \<Rightarrow> state \<Rightarrow> state" where
  "run [] s = s"
| "run (e # es) s = run es (step e s)"

text \<open>Observations used in the statements below.\<close>

text \<open>
  The state in which the \<open>finally\<close> block of \<open>disconnect\<close> calls \<open>handleDisconnect\<close>:
  the call is no longer suspended, the \<open>catch\<close> block has cleared the selection when the
  adapter rejected, and \<open>disconnecting\<close> is false.
\<close>

definition before_teardown :: "state \<Rightarrow> WalletError option \<Rightarrow> state" where
  "before_teardown s r =
     (case r of
        None \<Rightarrow> s\<lparr>pendingDisconnects := pendingDisconnects s - 1\<rparr>
      | Some e \<Rightarrow> setWalletName (s\<lparr>pendingDisconnects := pendingDisconnects s - 1\<rparr>) None)
     \<lparr>disconnecting := False\<rparr>"

definition persisted :: "state \<Rightarrow> WalletName option" where
  "persisted s = getWalletNameFromLocalStorage s (localStorageKey s)"

definition connect_calls :: "adapter_call list \<Rightarrow> nat" where
  "connect_calls cs = length (filter (\<lambda>c. case c of CallConnect _ \<Rightarrow> True | _ \<Rightarrow> False) cs)"

definition bridge_registrations :: "(event_name \<times> listener_fn) list" where
  "bridge_registrations =
     [(AccountChangeEv, HandleAddressChange), (NetworkChangeEv, HandleNetworkChange),
      (DisconnectEv, HandleDisconnect), (ErrorEv, HandleError)]"

definition bridge_listeners :: "state \<Rightarrow> aref \<Rightarrow> (event_name \<times> listener_fn \<times> aref) list" where
  "bridge_listeners s a =
     filter (\<lambda>l. (fst l, fst (snd l)) \<in> set bridge_registrations) (a_listeners (heap s a))"

definition readyState_listeners :: "state \<Rightarrow> aref \<Rightarrow> (event_name \<times> listener_fn \<times> aref) list" where
  "readyState_listeners s a = filter (\<lambda>l. fst l = ReadyStateChangeEv) (a_listeners (heap s a))"

section \<open>The module-global variant (\<open>useVueWalletProvider.ts\<close>)\<close>

text \<open>
  The variant keeps \<open>adapters\<close>, \<open>onError\<close> and \<open>connecting\<close> at module level and has no
  session fields. \<open>wallets\<close> is a computed list over \<open>adapters\<close>; \<open>connect\<close> reads only
  the adapter of the entry it finds. The guard of \<open>connect\<close> is commented out in this file.
  The message texts of the two errors are not carried.
\<close>

record vstate =
  v_adapters :: "aref list"
  v_onError :: "nat option"
  v_connecting :: bool
  v_heap :: "aref \<Rightarrow> adapter_obj"
  v_hasWindow :: bool
  v_handled :: "(sink \<times> WalletError) list"
  v_calls :: "adapter_call list"
  v_opened :: "string list"
  v_pending :: nat

definition v_wallets :: "vstate \<Rightarrow> Wallet list" where
  "v_wallets s =
     map (\<lambda>(i, adpt). \<lparr>w_id = i, w_adapter = adpt, w_readyState = a_readyState (v_heap s adpt)\<rparr>)
       (enumerate 0 (v_adapters s))"

definition v_handleError :: "vstate \<Rightarrow> WalletError \<Rightarrow> vstate" where
  "v_handleError s error =
     (if v_onError s \<noteq> None
      then s\<lparr>v_handled := v_handled s @
               [(case v_onError s of Some h \<Rightarrow> Handler h | None \<Rightarrow> ConsoleLog, error)]\<rparr>
      else s)"

definition v_connect :: "vstate \<Rightarrow> string \<Rightarrow> call_result \<times> vstate" where
  "v_connect s toConnectWalletName =
     (case List.find (\<lambda>wAdapter. a_name (v_heap s (w_adapter wAdapter)) = toConnectWalletName)
             (v_wallets s) of
        None \<Rightarrow> (Rejected WalletNotSelectedError, v_handleError s WalletNotSelectedError)
      | Some selectedWallet \<Rightarrow>
          (let a = w_adapter selectedWallet
           in if \<not> (a_readyState (v_heap s a) = Installed \<or> a_readyState (v_heap s a) = Loadable)
              then
                (let s1 = (case a_url (v_heap s a) of
                             None \<Rightarrow> s
                           | Some url \<Rightarrow>
                               if v_hasWindow s \<and> url \<noteq> []
                               then s\<lparr>v_opened := v_opened s @ [url]\<rparr> else s)
                 in (Rejected WalletNotReadyError, v_handleError s1 WalletNotReadyError))
              else
                (Pending, s\<lparr>v_connecting := True,
                             v_calls := v_calls s @ [CallConnect a],
                             v_pending := Suc (v_pending s)\<rparr>)))"

section \<open>Concrete adapters and states\<close>

definition adapterA :: adapter_obj where
  "adapterA = \<lparr>a_name = ''A'', a_url = Some ''https://a.example'', a_readyState = Installed,
               a_connected = False, a_publicAccount = Some ''0xa'', a_network = Some ''mainnet'',
               a_listeners = []\<rparr>"

definition adapterB :: adapter_obj where
  "adapterB = \<lparr>a_name = ''B'', a_url = Some ''https://b.example'', a_readyState = NotDetected,
               a_connected = False, a_publicAccount = None, a_network = None,
               a_listeners = []\<rparr>"

definition adapterC :: adapter_obj where
  "adapterC = \<lparr>a_name = ''C'', a_url = None, a_readyState = Loadable,
               a_connected = True, a_publicAccount = Some ''0xc'', a_network = Some ''testnet'',
               a_listeners = []\<rparr>"

text \<open>Adapter \<open>A\<close> at address 0, \<open>C\<close> at address 2, \<open>B\<close> at every other address.\<close>

definition heap0 :: "aref \<Rightarrow> adapter_obj" where
  "heap0 r = (if r = 0 then adapterA else if r = 2 then adapterC else adapterB)"

definition options :: "aref list \<Rightarrow> nat option \<Rightarrow> UseWalletsProvider" where
  "options ws h = \<lparr>o_wallets = Some ws, o_onError = h, o_localStorageKey = None,
                   o_autoConnect = Some False\<rparr>"

definition fresh0 :: state where
  "fresh0 = useWallets heap0 (Some Map.empty) True"

definition vfresh0 :: vstate where
  "vfresh0 = \<lparr>v_adapters = [0, 1, 2], v_onError = None, v_connecting = False, v_heap = heap0,
              v_hasWindow = True, v_handled = [], v_calls = [], v_opened = [], v_pending = 0\<rparr>"

text \<open>
  Two sessions with a suspended \<open>connect\<close>: on adapter \<open>A\<close> (not yet connected), and on
  adapter \<open>C\<close> (which reports itself connected already).
\<close>

definition sessionA :: state where
  "sessionA = run [Init (options [0, 1] (Some 7)), WatchAdapters, Select (Some ''A''), Connect] fresh0"

definition listedAB :: state where
  "listedAB = run [Init (options [0, 1] (Some 7)), WatchAdapters] fresh0"

definition listedA :: state where
  "listedA = run [Init (options [0] None), WatchAdapters] fresh0"

text \<open>
  Two adapters named \<open>B\<close> listed together (addresses 1 and 3), and the list \<open>[3]\<close>
  replaced by the list \<open>[1]\<close>.
\<close>

definition twinsB :: state where
  "twinsB = run [Init (options [1, 3] None), WatchAdapters] fresh0"

definition staleB :: state where
  "staleB =
     run [Init (options [3] None), WatchAdapters, Init (options [1] None), WatchAdapters] fresh0"

definition selectedB :: state where
  "selectedB = run [Select (Some ''B'')] listedAB"

definition selectedX :: state where
  "selectedX = run [Select (Some ''X'')] listedAB"

definition selectedA :: state where
  "selectedA = run [Init (options [0, 1] (Some 7)), WatchAdapters, Select (Some ''A'')] fresh0"

text \<open>
  After the \<open>connect\<close> of \<open>sessionA\<close> is fulfilled and adapter \<open>A\<close> reports itself
  connected, \<open>connect\<close> is called once more.
\<close>

definition connectedA :: state where
  "connectedA = run [ConnectSettles 0 None] sessionA"

definition reconnectA :: state where
  "reconnectA =
     run [ConnectSettles 0 None,
          AdapterChanges 0 Installed True (Some ''0xa'') (Some ''mainnet''),
          Connect] sessionA"

definition sessionC :: state where
  "sessionC = run [Init (options [2] None), WatchAdapters, Select (Some ''C''), Connect] fresh0"

text \<open>
  What holds of every state an execution reaches: no handler is stored and none was called;
  without an active adapter the other session fields are empty; \<open>connecting\<close> and
  \<open>disconnecting\<close> each mirror the one suspended call of its kind; the identity that the
  next new \<open>Wallet\<close> object gets is not yet in use.
\<close>

definition session_inv :: "state \<Rightarrow> bool" where
  "session_inv s =
     (onError s = None \<and> handled s = []
      \<and> (adapter s = None \<longrightarrow>
           wallet s = None \<and> account s = None \<and> walletNetwork s = None \<and> \<not> connected s)
      \<and> length (pendingConnects s) \<le> 1 \<and> connecting s = (pendingConnects s \<noteq> [])
      \<and> pendingDisconnects s \<le> 1 \<and> disconnecting s = (0 < pendingDisconnects s)
      \<and> (\<forall>p \<in> set (wallets s). w_id p < nextObj s))"

lemmas exec_defs =
  step_def init_def truthy_def watch_adapters_def cleanup_one_def snapshot_one_def
  subscribe_one_def adapter_on_def adapter_off_def off_matches_def setWalletName_def
  setDefaultState_def handleError_def handleAfterConnect_def handleDisconnect_def
  handleAddressChange_def handleNetworkChange_def handleReadyStateChange_def
  connect_def connect_as_def connect_resume_def connect_settles_def
  disconnect_def disconnect_resume_def disconnect_settles_def
  emit_def call_listener_def event_of_def adapter_changes_def
  getWalletNameFromLocalStorage_def persisted_def useWallets_def

lemmas fixture_defs =
  twinsB_def staleB_def connectedA_def listedA_def selectedB_def selectedX_def listedAB_def sessionA_def sessionC_def selectedA_def reconnectA_def vfresh0_def fresh0_def heap0_def adapterA_def adapterB_def adapterC_def options_def

section \<open>The invariant of the session\<close>

lemma inv_fold: "(\<And>x s. P s \<Longrightarrow> P (f x s)) \<Longrightarrow> P s \<Longrightarrow> P (fold f xs s)"
  by (induction xs arbitrary: s) simp_all

lemma inv_useWallets: "session_inv (useWallets h ls w)"
  by (simp add: session_inv_def useWallets_def)

lemma inv_init: "session_inv s \<Longrightarrow> session_inv (init s opts)"
  by (simp add: session_inv_def init_def Let_def split: option.splits)

lemma inv_setWalletName: "session_inv s \<Longrightarrow> session_inv (setWalletName s n)"
  by (simp add: session_inv_def setWalletName_def split: option.splits)

lemma inv_handleError: "session_inv s \<Longrightarrow> session_inv (handleError s e)"
  by (simp add: session_inv_def handleError_def)

lemma inv_handleReadyStateChange: "session_inv s \<Longrightarrow> session_inv (handleReadyStateChange s a r)"
  by (auto simp add: session_inv_def handleReadyStateChange_def Let_def less_Suc_eq
      dest: in_set_takeD in_set_dropD split: option.splits)

lemma inv_handleAddressChange: "session_inv s \<Longrightarrow> session_inv (handleAddressChange s)"
  by (auto simp add: session_inv_def handleAddressChange_def split: option.splits)

lemma inv_handleNetworkChange: "session_inv s \<Longrightarrow> session_inv (handleNetworkChange s)"
  by (auto simp add: session_inv_def handleNetworkChange_def split: option.splits)

lemma inv_handleDisconnect: "session_inv s \<Longrightarrow> session_inv (handleDisconnect s)"
  by (auto simp add: session_inv_def handleDisconnect_def setWalletName_def setDefaultState_def
      adapter_off_def Let_def split: option.splits)

lemma inv_watch_adapters: "session_inv s \<Longrightarrow> session_inv (watch_adapters s)"
proof -
  have c: "\<And>x s. session_inv s \<Longrightarrow> session_inv (cleanup_one x s)"
    by (simp add: session_inv_def cleanup_one_def adapter_off_def)
  have n: "\<And>x s. session_inv s \<Longrightarrow> session_inv (snapshot_one x s)"
    by (auto simp add: session_inv_def snapshot_one_def less_Suc_eq)
  have u: "\<And>x s. session_inv s \<Longrightarrow> session_inv (subscribe_one x s)"
    by (simp add: session_inv_def subscribe_one_def adapter_on_def)
  have w: "\<And>s. session_inv s \<Longrightarrow> session_inv (s\<lparr>wallets := []\<rparr>)"
    by (simp add: session_inv_def)
  have k: "\<And>s. session_inv s \<Longrightarrow> session_inv (s\<lparr>cleanupSet := True\<rparr>)"
    by (simp add: session_inv_def)
  assume i: "session_inv s"
  show ?thesis
    unfolding watch_adapters_def Let_def
    by (intro k inv_fold [where P = session_inv] u n w)
       (auto intro: c inv_fold [where P = session_inv] i)
qed

lemma inv_connect_as: "session_inv s \<Longrightarrow> session_inv (snd (connect_as c s))"
  by (auto simp add: session_inv_def connect_as_def handleError_def setWalletName_def Let_def
      split: option.splits)

lemma inv_watch_readyState: "session_inv s \<Longrightarrow> session_inv (watch_readyState s)"
  unfolding watch_readyState_def
  by (rule inv_fold) (simp_all add: session_inv_def watch_readyState_one_def)

lemma inv_watch_walletName: "session_inv s \<Longrightarrow> session_inv (watch_walletName s)"
  by (simp add: session_inv_def watch_walletName_def)

lemma inv_watch_autoConnect: "session_inv s \<Longrightarrow> session_inv (watch_autoConnect s)"
  using inv_connect_as [of s ByAutoConnect]
  by (auto simp add: watch_autoConnect_def split: prod.splits call_result.splits
      intro: inv_handleError)

lemma inv_connect_settles: "session_inv s \<Longrightarrow> session_inv (connect_settles s i r)"
  by (auto simp add: session_inv_def connect_settles_def connect_resume_def handleError_def
      handleAfterConnect_def adapter_on_def setWalletName_def Let_def split: option.splits)

lemma inv_disconnect: "session_inv s \<Longrightarrow> session_inv (snd (disconnect s))"
  by (auto simp add: session_inv_def disconnect_def setWalletName_def split: option.splits)

lemma inv_disconnect_settles: "session_inv s \<Longrightarrow> session_inv (disconnect_settles s r)"
proof -
  assume i: "session_inv s"
  have a: "0 < pendingDisconnects s \<Longrightarrow>
      session_inv (s\<lparr>pendingDisconnects := pendingDisconnects s - 1, disconnecting := False\<rparr>)"
    using i by (auto simp add: session_inv_def)
  have b: "0 < pendingDisconnects s \<Longrightarrow>
      session_inv ((setWalletName (s\<lparr>pendingDisconnects := pendingDisconnects s - 1\<rparr>) None)
                     \<lparr>disconnecting := False\<rparr>)"
    using i by (auto simp add: session_inv_def setWalletName_def split: option.splits)
  show ?thesis
    using a b i
    by (auto simp add: disconnect_settles_def disconnect_resume_def split: option.splits
        intro: inv_handleDisconnect)
qed

lemma inv_sign:
  "session_inv s \<Longrightarrow> session_inv (snd (signAndSubmitTransaction s tx opt out))"
  "session_inv s \<Longrightarrow> session_inv (snd (signTransaction s tx opt out))"
  "session_inv s \<Longrightarrow> session_inv (snd (signMessage s m out))"
  by (auto simp add: session_inv_def signAndSubmitTransaction_def signTransaction_def
      signMessage_def handleError_def split: option.splits)

lemma inv_call_listener: "session_inv s \<Longrightarrow> session_inv (call_listener ev f s)"
  by (auto simp add: call_listener_def split: listener_fn.splits emitted.splits
      intro: inv_handleAddressChange inv_handleNetworkChange inv_handleDisconnect
        inv_handleError inv_handleReadyStateChange)

lemma inv_emit: "session_inv s \<Longrightarrow> session_inv (emit s a ev)"
  unfolding emit_def by (rule inv_fold) (rule inv_call_listener)

lemma inv_adapter_changes: "session_inv s \<Longrightarrow> session_inv (adapter_changes s a r c p n)"
  by (simp add: session_inv_def adapter_changes_def)

lemma inv_step: "session_inv s \<Longrightarrow> session_inv (step e s)"
  by (cases e)
     (simp_all add: step_def connect_def inv_init inv_watch_adapters inv_watch_readyState
        inv_watch_walletName inv_watch_autoConnect inv_setWalletName inv_connect_as
        inv_connect_settles inv_disconnect inv_disconnect_settles inv_sign inv_emit
        inv_adapter_changes)

lemma inv_run: "session_inv s \<Longrightarrow> session_inv (run es s)"
  by (induction es arbitrary: s) (simp_all add: inv_step)

lemma inv_reachable: "session_inv (run es (init (useWallets h ls w) opts))"
  by (rule inv_run) (rule inv_init [OF inv_useWallets])

lemma sessionA_fields:
  "adapter sessionA = Some 0" "connected sessionA = False" "connecting sessionA = True"
  "disconnecting sessionA = False" "pendingConnects sessionA = [ByCaller]"
  "calls sessionA = [CallConnect 0]" "onError sessionA = None" "handled sessionA = []"
  by (simp_all add: exec_defs fixture_defs)

lemma sessionC_fields:
  "adapter sessionC = Some 2" "connected sessionC = True" "connecting sessionC = True"
  "calls sessionC = [CallConnect 2]"
  by (simp_all add: exec_defs fixture_defs)

lemma selectedA_connect: "fst (connect selectedA) = Pending" "snd (connect selectedA) = sessionA"
  by (simp_all add: exec_defs fixture_defs)

lemma connect_Pending:
  "fst (connect s) = Pending \<Longrightarrow> \<not> connecting s \<and> \<not> disconnecting s \<and> \<not> connected s"
  by (auto simp add: connect_def connect_as_def Let_def split: option.splits if_splits)

lemma disconnect_Pending: "fst (disconnect s) = Pending \<Longrightarrow> \<not> disconnecting s"
  by (auto simp add: disconnect_def split: option.splits if_splits)

lemma connect_calls_append: "connect_calls (cs @ [CallConnect a]) = Suc (connect_calls cs)"
  by (simp add: connect_calls_def)

section \<open>The error handler\<close>

text \<open>
  Claim C10. For every handler \<open>h\<close>, \<open>init\<close> called with \<open>onError = h\<close> on a new instance
  leaves the stored handler undefined, because the assignment is guarded by the stored
  handler being defined already. Hence in every state of every later execution
  \<open>handleError\<close> does nothing, and no handler call was ever made.
\<close>

theorem init_never_installs_handler:
  "onError (init (useWallets h ls w) opts) = None
   \<and> handled (run es (init (useWallets h ls w) opts)) = []
   \<and> handleError (run es (init (useWallets h ls w) opts)) e
       = run es (init (useWallets h ls w) opts)"
proof -
  have "session_inv (init (useWallets h ls w) opts)"
    by (rule inv_init [OF inv_useWallets])
  moreover have "session_inv (run es (init (useWallets h ls w) opts))"
    by (rule inv_reachable)
  ultimately show ?thesis
    by (simp add: session_inv_def handleError_def)
qed

theorem init_never_installs_handler_witness:
  "onError (init fresh0 (options [0, 1] (Some 7))) = None
   \<and> handled (run [WatchAdapters, Connect] (init fresh0 (options [0, 1] (Some 7)))) = []"
  using init_never_installs_handler [of heap0 "Some Map.empty" True "options [0, 1] (Some 7)"
      "[WatchAdapters, Connect]" WalletNotSelectedError]
  by (simp add: fresh0_def)

section \<open>Session invariants\<close>

text \<open>
  Claim C4. In every state reached from the initial state of a new instance by any sequence
  of events (calls of \<open>connect\<close>, \<open>disconnect\<close>, \<open>select\<close>, settlements, watcher jobs and
  adapter notifications), \<open>connected\<close> being true implies that the active adapter is not null.
\<close>

theorem connected_implies_adapter:
  "connected (run es (useWallets h ls w)) \<longrightarrow> adapter (run es (useWallets h ls w)) \<noteq> None"
  using inv_run [OF inv_useWallets, of es h ls w] by (auto simp add: session_inv_def)

theorem connected_implies_adapter_witness:
  "connected (run [Init (options [2] None), WatchAdapters, Select (Some ''C''), Connect] fresh0)
   \<and> adapter (run [Init (options [2] None), WatchAdapters, Select (Some ''C''), Connect] fresh0)
       \<noteq> None"
proof -
  have c: "connected (run [Init (options [2] None), WatchAdapters, Select (Some ''C''), Connect] fresh0)"
    by (simp add: exec_defs fixture_defs)
  with connected_implies_adapter
         [of "[Init (options [2] None), WatchAdapters, Select (Some ''C''), Connect]"
             heap0 "Some Map.empty" True]
  show ?thesis by (simp add: fresh0_def)
qed

section \<open>The transaction operations\<close>

text \<open>
  Claim C9. Each of \<open>signAndSubmitTransaction\<close>, \<open>signTransaction\<close> and \<open>signMessage\<close>
  fails with \<open>WalletNotSelectedError\<close> when there is no active adapter, fails with
  \<open>WalletNotConnectedError\<close> when there is one but \<open>connected\<close> is false, and otherwise
  calls the adapter's operation of the same name with the same arguments and gives the
  caller exactly what the adapter's promise settles to.
\<close>

theorem sign_guards:
  "(adapter s = None \<longrightarrow>
      fst (signAndSubmitTransaction s tx opt out) = Inl WalletNotSelectedError
      \<and> fst (signTransaction s tx opt out) = Inl WalletNotSelectedError
      \<and> fst (signMessage s msg out) = Inl WalletNotSelectedError)
   \<and> (adapter s \<noteq> None \<and> \<not> connected s \<longrightarrow>
      fst (signAndSubmitTransaction s tx opt out) = Inl WalletNotConnectedError
      \<and> fst (signTransaction s tx opt out) = Inl WalletNotConnectedError
      \<and> fst (signMessage s msg out) = Inl WalletNotConnectedError)
   \<and> (adapter s = Some a \<and> connected s \<longrightarrow>
      signAndSubmitTransaction s tx opt out
        = (out, s\<lparr>calls := calls s @ [CallSignAndSubmitTransaction a tx opt]\<rparr>)
      \<and> signTransaction s tx opt out
        = (out, s\<lparr>calls := calls s @ [CallSignTransaction a tx opt]\<rparr>)
      \<and> signMessage s msg out = (out, s\<lparr>calls := calls s @ [CallSignMessage a msg]\<rparr>))"
  by (auto simp add: signAndSubmitTransaction_def signTransaction_def signMessage_def)

theorem sign_guards_witness:
  "adapter fresh0 = None
   \<and> fst (signMessage fresh0 ''hello'' (Inr ''sig'')) = Inl WalletNotSelectedError
   \<and> adapter sessionA \<noteq> None \<and> \<not> connected sessionA
   \<and> fst (signTransaction sessionA ''tx'' None (Inr ''signed'')) = Inl WalletNotConnectedError
   \<and> adapter sessionC = Some 2 \<and> connected sessionC
   \<and> fst (signAndSubmitTransaction sessionC ''tx'' None (Inr ''hash'')) = Inr ''hash''
   \<and> fst (signAndSubmitTransaction sessionC ''tx'' None (Inl (AdapterError ''denied'')))
       = Inl (AdapterError ''denied'')
   \<and> calls (snd (signAndSubmitTransaction sessionC ''tx'' None (Inr ''hash'')))
       = [CallConnect 2, CallSignAndSubmitTransaction 2 ''tx'' None]"
proof -
  have f: "adapter fresh0 = None"
    by (simp add: fresh0_def useWallets_def)
  note a = sessionA_fields(1,2)
  note c = sessionC_fields(1,2)
  show ?thesis
    using f a c sessionC_fields(4)
      sign_guards [of fresh0 "''tx''" None "Inr ''sig''" "''hello''" 0]
      sign_guards [of sessionA "''tx''" None "Inr ''signed''" "''hello''" 0]
      sign_guards [of sessionC "''tx''" None "Inr ''hash''" "''hello''" 2]
      sign_guards [of sessionC "''tx''" None "Inl (AdapterError ''denied'')" "''hello''" 2]
    by simp
qed

section \<open>Mutual exclusion\<close>

text \<open>
  Claim C6, as the code has it. In every reachable state at most one \<open>connect\<close> and at most
  one \<open>disconnect\<close> is suspended on the adapter; \<open>connecting\<close> is true exactly while a
  \<open>connect\<close> is suspended and \<open>disconnecting\<close> exactly while a \<open>disconnect\<close> is
  suspended; \<open>connect\<close> suspends only when entered with \<open>connecting\<close>, \<open>disconnecting\<close>
  and \<open>connected\<close> all false, and \<open>disconnect\<close> only when entered with \<open>disconnecting\<close>
  false.
\<close>

theorem flags_mirror_suspended_calls:
  "length (pendingConnects (run es (useWallets h ls w))) \<le> 1
   \<and> connecting (run es (useWallets h ls w)) = (pendingConnects (run es (useWallets h ls w)) \<noteq> [])
   \<and> pendingDisconnects (run es (useWallets h ls w)) \<le> 1
   \<and> disconnecting (run es (useWallets h ls w))
       = (0 < pendingDisconnects (run es (useWallets h ls w)))
   \<and> (fst (connect s) = Pending \<longrightarrow> \<not> connecting s \<and> \<not> disconnecting s \<and> \<not> connected s)
   \<and> (fst (disconnect s) = Pending \<longrightarrow> \<not> disconnecting s)"
  using inv_run [OF inv_useWallets, of es h ls w] connect_Pending [of s] disconnect_Pending [of s]
  by (simp add: session_inv_def)

theorem flags_mirror_suspended_calls_witness:
  "fst (connect selectedA) = Pending \<and> \<not> connected selectedA
   \<and> fst (disconnect sessionA) = Pending \<and> \<not> disconnecting sessionA
   \<and> length (pendingConnects sessionA) \<le> 1
   \<and> connecting sessionA = (pendingConnects sessionA \<noteq> [])"
proof -
  have d: "fst (disconnect sessionA) = Pending"
    by (simp add: exec_defs fixture_defs)
  show ?thesis
    using selectedA_connect(1) d
      flags_mirror_suspended_calls
        [of "[Init (options [0, 1] (Some 7)), WatchAdapters, Select (Some ''A''), Connect]"
            heap0 "Some Map.empty" True selectedA]
      flags_mirror_suspended_calls [of "[]" heap0 "Some Map.empty" True sessionA]
    by (simp add: sessionA_def fresh0_def)
qed

text \<open>
  The claim as the specification words it fails: \<open>disconnect\<close> called while a \<open>connect\<close> is
  suspended leaves \<open>connecting\<close> and \<open>disconnecting\<close> both true, and a \<open>connect\<close> on an
  adapter that reports itself connected leaves \<open>connecting\<close> and \<open>connected\<close> both true.
\<close>

theorem flags_not_exclusive:
  "connecting (run [Disconnect] sessionA) \<and> disconnecting (run [Disconnect] sessionA)
   \<and> connecting reconnectA \<and> connected reconnectA"
  by (simp add: exec_defs fixture_defs)

text \<open>
  Claim C3, as the code has it. In \<open>useWallets\<close> with \<open>init\<close>, \<open>connect\<close> called while
  \<open>connecting\<close>, \<open>disconnecting\<close> or \<open>connected\<close> is true returns at once, changes
  nothing and raises nothing; so a second \<open>connect\<close> directly after one that suspended adds
  no adapter call, and the two together make exactly one. In the module-global variant the
  guard is commented out: a second \<open>connect\<close> for the same wallet suspends again, and the
  two calls make two adapter calls.
\<close>

theorem connect_guard:
  "(connecting s \<or> disconnecting s \<or> connected s \<longrightarrow> connect s = (Returned, s))
   \<and> (fst (connect s) = Pending \<longrightarrow>
        connect (snd (connect s)) = (Returned, snd (connect s))
        \<and> connect_calls (calls (snd (connect s))) = Suc (connect_calls (calls s)))
   \<and> (fst (v_connect v n) = Pending \<longrightarrow>
        fst (v_connect (snd (v_connect v n)) n) = Pending
        \<and> connect_calls (v_calls (snd (v_connect (snd (v_connect v n)) n)))
            = Suc (Suc (connect_calls (v_calls v))))"
proof (intro conjI impI)
  assume "connecting s \<or> disconnecting s \<or> connected s"
  then show "connect s = (Returned, s)"
    by (auto simp add: connect_def connect_as_def)
next
  assume p: "fst (connect s) = Pending"
  then have c: "connecting (snd (connect s))"
    by (auto simp add: connect_def connect_as_def Let_def split: option.splits if_splits)
  then show "connect (snd (connect s)) = (Returned, snd (connect s))"
    by (simp add: connect_def connect_as_def)
  from p show "connect_calls (calls (snd (connect s))) = Suc (connect_calls (calls s))"
    by (auto simp add: connect_def connect_as_def Let_def connect_calls_append
        split: option.splits if_splits)
next
  assume p: "fst (v_connect v n) = Pending"
  have w: "v_wallets (snd (v_connect v n)) = v_wallets v" "v_heap (snd (v_connect v n)) = v_heap v"
    using p by (auto simp add: v_connect_def v_wallets_def Let_def split: option.splits if_splits)
  from p w show "fst (v_connect (snd (v_connect v n)) n) = Pending"
    by (auto simp add: v_connect_def Let_def split: option.splits if_splits)
  from p w show "connect_calls (v_calls (snd (v_connect (snd (v_connect v n)) n)))
      = Suc (Suc (connect_calls (v_calls v)))"
    by (auto simp add: v_connect_def Let_def connect_calls_append split: option.splits if_splits)
qed

theorem connect_guard_witness:
  "connecting sessionA \<and> connect sessionA = (Returned, sessionA)
   \<and> fst (connect selectedA) = Pending
   \<and> connect (snd (connect selectedA)) = (Returned, snd (connect selectedA))
   \<and> connect_calls (calls (snd (connect selectedA))) = 1
   \<and> fst (v_connect vfresh0 ''A'') = Pending
   \<and> connect_calls (v_calls (snd (v_connect (snd (v_connect vfresh0 ''A'')) ''A''))) = 2"
proof -
  have v: "fst (v_connect vfresh0 ''A'') = Pending" "v_calls vfresh0 = []"
    by (simp_all add: v_connect_def v_wallets_def fixture_defs)
  have c: "calls selectedA = []"
    by (simp add: exec_defs fixture_defs)
  show ?thesis
    using v c selectedA_connect(1) sessionA_fields(3)
      connect_guard [of sessionA vfresh0 "''A''"]
      connect_guard [of selectedA vfresh0 "''A''"]
    by (simp add: connect_calls_def)
qed

text \<open>
  The claim as worded fails on the variant: with \<open>connecting\<close> true, a second \<open>connect\<close>
  for wallet \<open>A\<close> suspends on a second call of the adapter's connect operation.
\<close>

theorem variant_connects_twice:
  "v_connecting (snd (v_connect vfresh0 ''A''))
   \<and> fst (v_connect (snd (v_connect vfresh0 ''A'')) ''A'') = Pending
   \<and> v_calls (snd (v_connect (snd (v_connect vfresh0 ''A'')) ''A''))
       = [CallConnect 0, CallConnect 0]"
  by (simp add: v_connect_def v_wallets_def fixture_defs)

section \<open>The readiness tracker\<close>

lemma findIndex_Some:
  "findIndex P xs = Some i \<Longrightarrow> i < length xs \<and> P (xs ! i) \<and> (\<forall>j<i. \<not> P (xs ! j))"
proof (induction xs arbitrary: i)
  case Nil
  then show ?case by simp
next
  case (Cons x xs)
  show ?case
  proof (cases "P x")
    case True
    with Cons.prems show ?thesis by simp
  next
    case False
    with Cons.prems obtain k where k: "findIndex P xs = Some k" "i = Suc k"
      by (auto split: option.splits)
    from Cons.IH [OF k(1)] False k(2) show ?thesis
      by (auto simp add: less_Suc_eq_0_disj)
  qed
qed

lemma findIndex_None: "findIndex P xs = None \<longleftrightarrow> (\<forall>x\<in>set xs. \<not> P x)"
  by (induction xs) (auto split: option.splits)

lemma take_drop_update: "i < length xs \<Longrightarrow> take i xs @ [v] @ drop (i + 1) xs = xs[i := v]"
  by (simp add: upd_conv_take_nth_drop)

lemma findIndex_distinct:
  "distinct (map f xs) \<Longrightarrow> k < length xs \<Longrightarrow> findIndex (\<lambda>x. f x = f (xs ! k)) xs = Some k"
proof -
  assume d: "distinct (map f xs)" and k: "k < length xs"
  have "findIndex (\<lambda>x. f x = f (xs ! k)) xs \<noteq> None"
    using k by (auto simp add: findIndex_None)
  then obtain i where i: "findIndex (\<lambda>x. f x = f (xs ! k)) xs = Some i" by auto
  from findIndex_Some [OF i] have "i < length xs" "f (xs ! i) = f (xs ! k)" by auto
  with d k have "i = k"
    by (metis distinct_conv_nth length_map nth_map)
  with i show ?thesis by simp
qed

lemma emit_single:
  "map (\<lambda>l. fst (snd l)) (readyState_listeners s a) = [f] \<Longrightarrow>
     emit s a (EReadyStateChange r) = call_listener (EReadyStateChange r) f s"
  by (simp add: emit_def readyState_listeners_def event_of_def)

lemma subscribe_one_listeners:
  "a_listeners (heap (subscribe_one x s) a)
     = (if a = x
        then a_listeners (heap s a) @ [(ReadyStateChangeEv, ReadyStateArrow (nextFn s) x, x)]
        else a_listeners (heap s a))"
  by (simp add: subscribe_one_def adapter_on_def)

lemma fold_subscribe_mono:
  "l \<in> set (a_listeners (heap s a)) \<Longrightarrow>
     l \<in> set (a_listeners (heap (fold subscribe_one xs s) a))"
proof (induction xs arbitrary: s)
  case Nil
  then show ?case by simp
next
  case (Cons x xs)
  have "l \<in> set (a_listeners (heap (subscribe_one x s) a))"
    using Cons.prems by (auto simp add: subscribe_one_listeners)
  from Cons.IH [OF this] show ?case by simp
qed

lemma fold_subscribe_adds:
  "a \<in> set xs \<Longrightarrow>
     \<exists>n. (ReadyStateChangeEv, ReadyStateArrow n a, a)
            \<in> set (a_listeners (heap (fold subscribe_one xs s) a))"
proof (induction xs arbitrary: s)
  case Nil
  then show ?case by simp
next
  case (Cons x xs)
  show ?case
  proof (cases "a = x")
    case True
    have "(ReadyStateChangeEv, ReadyStateArrow (nextFn s) a, a)
            \<in> set (a_listeners (heap (subscribe_one x s) a))"
      using True by (simp add: subscribe_one_listeners)
    from fold_subscribe_mono [OF this] show ?thesis by auto
  next
    case False
    with Cons.prems have "a \<in> set xs" by simp
    from Cons.IH [OF this] show ?thesis by simp
  qed
qed

lemma fold_cleanup_adapters: "adapters (fold cleanup_one xs s) = adapters s"
  by (induction xs arbitrary: s) (simp_all add: cleanup_one_def adapter_off_def)

lemma fold_snapshot_adapters: "adapters (fold snapshot_one xs s) = adapters s"
  by (induction xs arbitrary: s) (simp_all add: snapshot_one_def)

lemma fold_snapshot_wallets:
  "map w_adapter (wallets (fold snapshot_one xs s)) = map w_adapter (wallets s) @ xs"
  by (induction xs arbitrary: s) (simp_all add: snapshot_one_def)

lemma fold_subscribe_wallets: "wallets (fold subscribe_one xs s) = wallets s"
  by (induction xs arbitrary: s) (simp_all add: subscribe_one_def adapter_on_def)

lemma watch_adapters_subscribes:
  "a \<in> set (adapters s) \<Longrightarrow>
     \<exists>n. (ReadyStateChangeEv, ReadyStateArrow n a, a)
            \<in> set (a_listeners (heap (watch_adapters s) a))"
  using fold_subscribe_adds [of a "adapters s"]
  by (simp add: watch_adapters_def Let_def fold_cleanup_adapters fold_snapshot_adapters)

lemma watch_adapters_wallets: "map w_adapter (wallets (watch_adapters s)) = adapters s"
  by (simp add: watch_adapters_def Let_def fold_cleanup_adapters fold_snapshot_adapters
      fold_snapshot_wallets fold_subscribe_wallets)

text \<open>
  Claim C8, as the code has it. When the readiness of adapter \<open>current\<close> changes to \<open>r\<close>,
  the first entry of \<open>wallets\<close> whose adapter has the name of \<open>current\<close> is replaced, at its
  position, by a new object holding that entry's adapter and \<open>r\<close>; every other position
  holds the very object it held before, and the length is unchanged. When no entry has the
  adapter's name, nothing changes. When the listed adapters have distinct names and
  \<open>current\<close> is listed, the entry replaced is the one of \<open>current\<close> itself. In every
  reachable state the identity of the new object differs from the identity of every entry
  of the list. The update is what a readiness notification runs: the watcher lists the
  adapters in order and registers on each a listener that closes over it, and an adapter
  with one such listener, emitting the notification, runs the update for the adapter the
  listener closed over.
\<close>

theorem readiness_change_replaces_one_entry:
  "(findIndex (\<lambda>p. a_name (heap s (w_adapter p)) = a_name (heap s current)) (wallets s) = None \<longrightarrow>
      handleReadyStateChange s current r = s)
   \<and> ((\<forall>p \<in> set (wallets s). a_name (heap s (w_adapter p)) \<noteq> a_name (heap s current)) \<longrightarrow>
      wallets (handleReadyStateChange s current r) = wallets s)
   \<and> (findIndex (\<lambda>p. a_name (heap s (w_adapter p)) = a_name (heap s current)) (wallets s) = Some i \<longrightarrow>
      i < length (wallets s)
      \<and> a_name (heap s (w_adapter (wallets s ! i))) = a_name (heap s current)
      \<and> (\<forall>j < i. a_name (heap s (w_adapter (wallets s ! j))) \<noteq> a_name (heap s current))
      \<and> wallets (handleReadyStateChange s current r)
          = (wallets s)[i := \<lparr>w_id = nextObj s, w_adapter = w_adapter (wallets s ! i),
                               w_readyState = r\<rparr>]
      \<and> length (wallets (handleReadyStateChange s current r)) = length (wallets s)
      \<and> (\<forall>j < length (wallets s). j \<noteq> i \<longrightarrow>
            wallets (handleReadyStateChange s current r) ! j = wallets s ! j))
   \<and> (distinct (map (\<lambda>p. a_name (heap s (w_adapter p))) (wallets s)) \<and> k < length (wallets s)
        \<and> w_adapter (wallets s ! k) = current \<longrightarrow>
      wallets (handleReadyStateChange s current r)
          = (wallets s)[k := \<lparr>w_id = nextObj s, w_adapter = current, w_readyState = r\<rparr>])
   \<and> (\<forall>p \<in> set (wallets (run es (useWallets h ls w))).
         w_id p \<noteq> nextObj (run es (useWallets h ls w)))
   \<and> call_listener (EReadyStateChange r) (ReadyStateArrow n current) s
       = handleReadyStateChange s current r
   \<and> (map (\<lambda>l. fst (snd l)) (readyState_listeners s a) = [ReadyStateArrow n current] \<longrightarrow>
        emit s a (EReadyStateChange r) = handleReadyStateChange s current r)
   \<and> (a \<in> set (adapters s) \<longrightarrow>
        (\<exists>m. (ReadyStateChangeEv, ReadyStateArrow m a, a)
                \<in> set (a_listeners (heap (watch_adapters s) a))))
   \<and> map w_adapter (wallets (watch_adapters s)) = adapters s"
proof (intro conjI impI)
  assume "findIndex (\<lambda>p. a_name (heap s (w_adapter p)) = a_name (heap s current)) (wallets s) = None"
  then show "handleReadyStateChange s current r = s"
    by (simp add: handleReadyStateChange_def)
next
  assume "\<forall>p \<in> set (wallets s). a_name (heap s (w_adapter p)) \<noteq> a_name (heap s current)"
  then have "findIndex (\<lambda>p. a_name (heap s (w_adapter p)) = a_name (heap s current)) (wallets s) = None"
    by (simp add: findIndex_None)
  then show "wallets (handleReadyStateChange s current r) = wallets s"
    by (simp add: handleReadyStateChange_def)
next
  assume f: "findIndex (\<lambda>p. a_name (heap s (w_adapter p)) = a_name (heap s current)) (wallets s) = Some i"
  from findIndex_Some [OF f] show i: "i < length (wallets s)"
    and "a_name (heap s (w_adapter (wallets s ! i))) = a_name (heap s current)"
    and "\<forall>j < i. a_name (heap s (w_adapter (wallets s ! j))) \<noteq> a_name (heap s current)"
    by auto
  from f i show u: "wallets (handleReadyStateChange s current r)
          = (wallets s)[i := \<lparr>w_id = nextObj s, w_adapter = w_adapter (wallets s ! i),
                               w_readyState = r\<rparr>]"
    using take_drop_update [OF i]
    by (simp add: handleReadyStateChange_def Let_def)
  from u show "length (wallets (handleReadyStateChange s current r)) = length (wallets s)" by simp
  from u show "\<forall>j < length (wallets s). j \<noteq> i \<longrightarrow>
            wallets (handleReadyStateChange s current r) ! j = wallets s ! j" by simp
next
  assume a: "distinct (map (\<lambda>p. a_name (heap s (w_adapter p))) (wallets s)) \<and> k < length (wallets s)
        \<and> w_adapter (wallets s ! k) = current"
  then have f: "findIndex (\<lambda>p. a_name (heap s (w_adapter p)) = a_name (heap s current)) (wallets s) = Some k"
    using findIndex_distinct [of "\<lambda>p. a_name (heap s (w_adapter p))" "wallets s" k] by simp
  from a have k: "k < length (wallets s)" by simp
  from f a show "wallets (handleReadyStateChange s current r)
          = (wallets s)[k := \<lparr>w_id = nextObj s, w_adapter = current, w_readyState = r\<rparr>]"
    using take_drop_update [OF k]
    by (simp add: handleReadyStateChange_def Let_def)
next
  show "\<forall>p \<in> set (wallets (run es (useWallets h ls w))).
         w_id p \<noteq> nextObj (run es (useWallets h ls w))"
    using inv_run [OF inv_useWallets, of es h ls w] by (auto simp add: session_inv_def)
next
  show c: "call_listener (EReadyStateChange r) (ReadyStateArrow n current) s
       = handleReadyStateChange s current r"
    by (simp add: call_listener_def)
  assume "map (\<lambda>l. fst (snd l)) (readyState_listeners s a) = [ReadyStateArrow n current]"
  from emit_single [OF this] c
  show "emit s a (EReadyStateChange r) = handleReadyStateChange s current r" by simp
next
  assume "a \<in> set (adapters s)"
  then show "\<exists>m. (ReadyStateChangeEv, ReadyStateArrow m a, a)
                \<in> set (a_listeners (heap (watch_adapters s) a))"
    by (rule watch_adapters_subscribes)
next
  show "map w_adapter (wallets (watch_adapters s)) = adapters s"
    by (rule watch_adapters_wallets)
qed

lemma listedAB_fields:
  "wallets listedAB = [\<lparr>w_id = 0, w_adapter = 0, w_readyState = Installed\<rparr>,
                       \<lparr>w_id = 1, w_adapter = 1, w_readyState = NotDetected\<rparr>]"
  "nextObj listedAB = 2"
  "a_name (heap listedAB 0) = ''A''" "a_name (heap listedAB 1) = ''B''"
  "a_name (heap listedAB (Suc 0)) = ''B''" "a_name (heap listedAB 2) = ''C''"
  "adapters listedAB = [0, 1]"
  "readyState_listeners listedAB 1 = [(ReadyStateChangeEv, ReadyStateArrow 1 1, 1)]"
  "readyState_listeners listedAB (Suc 0)
     = [(ReadyStateChangeEv, ReadyStateArrow (Suc 0) (Suc 0), Suc 0)]"
  by (simp_all add: exec_defs fixture_defs readyState_listeners_def)

theorem readiness_change_replaces_one_entry_witness:
  "wallets (handleReadyStateChange listedAB 1 Installed)
     = [\<lparr>w_id = 0, w_adapter = 0, w_readyState = Installed\<rparr>,
        \<lparr>w_id = 2, w_adapter = 1, w_readyState = Installed\<rparr>]
   \<and> wallets (handleReadyStateChange listedAB 1 Installed) ! 0 = wallets listedAB ! 0
   \<and> handleReadyStateChange listedAB 2 Loadable = listedAB
   \<and> findIndex (\<lambda>p. a_name (heap listedAB (w_adapter p)) = a_name (heap listedAB 1))
        (wallets listedAB) = Some 1
   \<and> w_id (wallets listedAB ! 0) \<noteq> nextObj listedAB
   \<and> w_id (wallets listedAB ! 1) \<noteq> nextObj listedAB
   \<and> map (\<lambda>l. fst (snd l)) (readyState_listeners listedAB 1) = [ReadyStateArrow 1 1]
   \<and> wallets (emit listedAB 1 (EReadyStateChange Installed))
       = [\<lparr>w_id = 0, w_adapter = 0, w_readyState = Installed\<rparr>,
          \<lparr>w_id = 2, w_adapter = 1, w_readyState = Installed\<rparr>]
   \<and> 1 \<in> set (adapters listedAB)
   \<and> map w_adapter (wallets (watch_adapters listedAB)) = [0, 1]"
proof -
  have f1: "findIndex (\<lambda>p. a_name (heap listedAB (w_adapter p)) = a_name (heap listedAB 1))
        (wallets listedAB) = Some 1"
    by (simp add: listedAB_fields)
  have f2: "findIndex (\<lambda>p. a_name (heap listedAB (w_adapter p)) = a_name (heap listedAB 2))
        (wallets listedAB) = None"
    by (simp add: listedAB_fields)
  have d: "distinct (map (\<lambda>p. a_name (heap listedAB (w_adapter p))) (wallets listedAB))"
    by (simp add: listedAB_fields)
  have m: "map (\<lambda>l. fst (snd l)) (readyState_listeners listedAB 1) = [ReadyStateArrow 1 1]"
    by (simp add: listedAB_fields)
  have a: "1 \<in> set (adapters listedAB)"
    by (simp add: listedAB_fields)
  have l: "listedAB = run [Init (options [0, 1] (Some 7)), WatchAdapters]
                        (useWallets heap0 (Some Map.empty) True)"
    by (simp add: listedAB_def fresh0_def)
  note t1 = readiness_change_replaces_one_entry
      [where s = listedAB and current = 1 and r = Installed and i = 1 and k = 1
         and es = "[Init (options [0, 1] (Some 7)), WatchAdapters]"
         and h = heap0 and ls = "Some Map.empty" and w = True and n = 1 and a = 1, folded l]
  note t2 = readiness_change_replaces_one_entry
      [where s = listedAB and current = 2 and r = Loadable and i = 0 and k = 2
         and es = "[]" and h = heap0 and ls = "Some Map.empty" and w = True and n = 0 and a = 1]
  have u: "wallets (handleReadyStateChange listedAB 1 Installed)
     = [\<lparr>w_id = 0, w_adapter = 0, w_readyState = Installed\<rparr>,
        \<lparr>w_id = 2, w_adapter = 1, w_readyState = Installed\<rparr>]"
    using f1 t1 by (simp add: listedAB_fields)
  have e: "emit listedAB 1 (EReadyStateChange Installed) = handleReadyStateChange listedAB 1 Installed"
    using m t1 by simp
  have n: "handleReadyStateChange listedAB 2 Loadable = listedAB"
    using f2 t2 by simp
  have w: "map w_adapter (wallets (watch_adapters listedAB)) = [0, 1]"
    using t1 by (simp add: listedAB_fields)
  have ue: "wallets (emit listedAB 1 (EReadyStateChange Installed))
     = [\<lparr>w_id = 0, w_adapter = 0, w_readyState = Installed\<rparr>,
        \<lparr>w_id = 2, w_adapter = 1, w_readyState = Installed\<rparr>]"
    unfolding e by (rule u)
  show ?thesis
    using f1 m a u n w ue by (simp add: listedAB_fields)
qed

text \<open>
  The claim as worded fails where two adapters share a name. With two adapters named \<open>B\<close>
  listed, a readiness change of the second replaces the entry of the first and leaves its
  own entry as it was. After the list \<open>[3]\<close> is replaced by \<open>[1]\<close>, a readiness change of
  the unlisted adapter 3 replaces the entry of adapter 1.
\<close>

theorem readiness_change_hits_namesake:
  "a_name (heap twinsB 1) = a_name (heap twinsB 3)
   \<and> wallets twinsB = [\<lparr>w_id = 0, w_adapter = 1, w_readyState = NotDetected\<rparr>,
                       \<lparr>w_id = 1, w_adapter = 3, w_readyState = NotDetected\<rparr>]
   \<and> wallets (run [AdapterEmits 3 (EReadyStateChange Installed)] twinsB)
       = [\<lparr>w_id = 2, w_adapter = 1, w_readyState = Installed\<rparr>,
          \<lparr>w_id = 1, w_adapter = 3, w_readyState = NotDetected\<rparr>]
   \<and> adapters staleB = [1]
   \<and> wallets staleB = [\<lparr>w_id = 1, w_adapter = 1, w_readyState = NotDetected\<rparr>]
   \<and> wallets (run [AdapterEmits 3 (EReadyStateChange Loadable)] staleB)
       = [\<lparr>w_id = 2, w_adapter = 1, w_readyState = Loadable\<rparr>]"
  by (simp add: exec_defs fixture_defs)

lemma persisted_handleError: "persisted (handleError s e) = persisted s"
  by (simp add: persisted_def handleError_def getWalletNameFromLocalStorage_def split: option.splits)

lemma persisted_setWalletName_None: "persisted (setWalletName s None) = None"
  by (simp add: persisted_def setWalletName_def getWalletNameFromLocalStorage_def split: option.splits)

section \<open>Failed connects\<close>

text \<open>
  Claim C2, as the code has it. A \<open>connect\<close> that raises before suspending raises
  \<open>WalletNotSelectedError\<close> or \<open>WalletNotReadyError\<close> and leaves \<open>connecting\<close> and
  \<open>disconnecting\<close> false. With \<open>WalletNotSelectedError\<close> nothing but the error handler
  was touched: the session and the persisted selection are as before. With
  \<open>WalletNotReadyError\<close> the persisted selection is removed, \<open>wallet\<close> is the matched
  entry (the first entry of \<open>wallets\<close> whose adapter has the selected name), \<open>adapter\<close> is
  that entry's adapter, which is neither installed nor loadable, and \<open>connected\<close>,
  \<open>account\<close> and \<open>network\<close> hold what was copied from that adapter. When the adapter's connect operation rejects, the persisted selection is removed
  and \<open>connecting\<close> is set to false; \<open>wallet\<close>, \<open>adapter\<close>, \<open>account\<close>, \<open>network\<close>,
  \<open>connected\<close> and \<open>disconnecting\<close> are left as they were.
\<close>

theorem connect_failure_state:
  "(fst (connect s) = Rejected e \<longrightarrow>
      (e = WalletNotSelectedError \<or> e = WalletNotReadyError)
      \<and> \<not> connecting (snd (connect s)) \<and> \<not> disconnecting (snd (connect s)))
   \<and> (fst (connect s) = Rejected WalletNotSelectedError \<longrightarrow>
      List.find (\<lambda>p. Some (a_name (heap s (w_adapter p))) = walletName s) (wallets s) = None
      \<and> snd (connect s) = handleError s WalletNotSelectedError
      \<and> persisted (snd (connect s)) = persisted s)
   \<and> (fst (connect s) = Rejected WalletNotReadyError \<longrightarrow>
      persisted (snd (connect s)) = None
      \<and> (\<exists>sw. List.find (\<lambda>p. Some (a_name (heap s (w_adapter p))) = walletName s) (wallets s)
                 = Some sw
            \<and> a_readyState (heap s (w_adapter sw)) \<noteq> Installed
            \<and> a_readyState (heap s (w_adapter sw)) \<noteq> Loadable
            \<and> wallet (snd (connect s)) = Some sw
            \<and> adapter (snd (connect s)) = Some (w_adapter sw)
            \<and> connected (snd (connect s)) = a_connected (heap s (w_adapter sw))
            \<and> account (snd (connect s)) = a_publicAccount (heap s (w_adapter sw))
            \<and> walletNetwork (snd (connect s)) = a_network (heap s (w_adapter sw))))
   \<and> (i < length (pendingConnects s) \<longrightarrow>
      persisted (connect_settles s i (Some e')) = None
      \<and> \<not> connecting (connect_settles s i (Some e'))
      \<and> wallet (connect_settles s i (Some e')) = wallet s
      \<and> adapter (connect_settles s i (Some e')) = adapter s
      \<and> account (connect_settles s i (Some e')) = account s
      \<and> walletNetwork (connect_settles s i (Some e')) = walletNetwork s
      \<and> connected (connect_settles s i (Some e')) = connected s
      \<and> disconnecting (connect_settles s i (Some e')) = disconnecting s)"
proof (intro conjI impI)
  assume r: "fst (connect s) = Rejected e"
  then show "e = WalletNotSelectedError \<or> e = WalletNotReadyError"
    by (auto simp add: connect_def connect_as_def Let_def split: option.splits if_splits)
  from r show "\<not> connecting (snd (connect s))"
    by (auto simp add: connect_def connect_as_def Let_def handleError_def setWalletName_def
        split: option.splits if_splits)
  from r show "\<not> disconnecting (snd (connect s))"
    by (auto simp add: connect_def connect_as_def Let_def handleError_def setWalletName_def
        split: option.splits if_splits)
next
  assume r: "fst (connect s) = Rejected WalletNotSelectedError"
  then show "List.find (\<lambda>p. Some (a_name (heap s (w_adapter p))) = walletName s) (wallets s) = None"
    by (auto simp add: connect_def connect_as_def Let_def split: option.splits if_splits)
  from r show u: "snd (connect s) = handleError s WalletNotSelectedError"
    by (auto simp add: connect_def connect_as_def Let_def split: option.splits if_splits)
  show "persisted (snd (connect s)) = persisted s"
    by (simp add: u persisted_handleError)
next
  assume r: "fst (connect s) = Rejected WalletNotReadyError"
  then show "persisted (snd (connect s)) = None"
    by (auto simp add: connect_def connect_as_def Let_def persisted_def handleError_def
        setWalletName_def getWalletNameFromLocalStorage_def split: option.splits if_splits)
  from r show "\<exists>sw. List.find (\<lambda>p. Some (a_name (heap s (w_adapter p))) = walletName s) (wallets s)
                 = Some sw
            \<and> a_readyState (heap s (w_adapter sw)) \<noteq> Installed
            \<and> a_readyState (heap s (w_adapter sw)) \<noteq> Loadable
            \<and> wallet (snd (connect s)) = Some sw
            \<and> adapter (snd (connect s)) = Some (w_adapter sw)
            \<and> connected (snd (connect s)) = a_connected (heap s (w_adapter sw))
            \<and> account (snd (connect s)) = a_publicAccount (heap s (w_adapter sw))
            \<and> walletNetwork (snd (connect s)) = a_network (heap s (w_adapter sw))"
    by (auto simp add: connect_def connect_as_def Let_def handleError_def
        setWalletName_def split: option.splits if_splits)
next
  assume i: "i < length (pendingConnects s)"
  then show "persisted (connect_settles s i (Some e')) = None"
    by (auto simp add: connect_settles_def connect_resume_def Let_def persisted_def handleError_def
        setWalletName_def getWalletNameFromLocalStorage_def split: option.splits if_splits)
  from i show "\<not> connecting (connect_settles s i (Some e'))"
    and "wallet (connect_settles s i (Some e')) = wallet s"
    and "adapter (connect_settles s i (Some e')) = adapter s"
    and "account (connect_settles s i (Some e')) = account s"
    and "walletNetwork (connect_settles s i (Some e')) = walletNetwork s"
    and "connected (connect_settles s i (Some e')) = connected s"
    and "disconnecting (connect_settles s i (Some e')) = disconnecting s"
    by (auto simp add: connect_settles_def connect_resume_def Let_def handleError_def
        setWalletName_def split: option.splits if_splits)
qed

text \<open>
  The claim as worded fails: after \<open>WalletNotReadyError\<close> the session still holds the
  wallet and adapter of \<open>B\<close>; after \<open>WalletNotSelectedError\<close> the selection \<open>X\<close> is
  still persisted; after a rejection by adapter \<open>A\<close> the session still holds adapter \<open>A\<close>.
\<close>

theorem failed_connect_keeps_session:
  "fst (connect selectedB) = Rejected WalletNotReadyError
   \<and> adapter (snd (connect selectedB)) = Some 1
   \<and> wallet (snd (connect selectedB)) = Some \<lparr>w_id = 1, w_adapter = 1, w_readyState = NotDetected\<rparr>
   \<and> fst (connect selectedX) = Rejected WalletNotSelectedError
   \<and> persisted (snd (connect selectedX)) = Some ''X''
   \<and> adapter (run [ConnectSettles 0 (Some (AdapterError ''rejected''))] sessionA) = Some 0"
  by (simp add: exec_defs fixture_defs)

theorem connect_failure_state_witness:
  "fst (connect selectedB) = Rejected WalletNotReadyError
   \<and> persisted (snd (connect selectedB)) = None
   \<and> \<not> connecting (snd (connect selectedB))
   \<and> fst (connect selectedX) = Rejected WalletNotSelectedError
   \<and> persisted (snd (connect selectedX)) = persisted selectedX
   \<and> 0 < length (pendingConnects sessionA)
   \<and> persisted (connect_settles sessionA 0 (Some (AdapterError ''rejected''))) = None
   \<and> adapter (connect_settles sessionA 0 (Some (AdapterError ''rejected''))) = Some 0"
proof -
  have b: "fst (connect selectedB) = Rejected WalletNotReadyError"
    by (simp add: exec_defs fixture_defs)
  have x: "fst (connect selectedX) = Rejected WalletNotSelectedError"
    by (simp add: exec_defs fixture_defs)
  have l: "0 < length (pendingConnects sessionA)"
    by (simp add: sessionA_fields)
  have t1: "persisted (snd (connect selectedB)) = None \<and> \<not> connecting (snd (connect selectedB))"
    using b connect_failure_state [of selectedB WalletNotReadyError 0 "AdapterError ''rejected''"]
    by blast
  have t2: "persisted (snd (connect selectedX)) = persisted selectedX"
    using x connect_failure_state [of selectedX WalletNotSelectedError 0 "AdapterError ''rejected''"]
    by blast
  have t3: "persisted (connect_settles sessionA 0 (Some (AdapterError ''rejected''))) = None
      \<and> adapter (connect_settles sessionA 0 (Some (AdapterError ''rejected''))) = adapter sessionA"
    using l connect_failure_state [of sessionA WalletNotSelectedError 0 "AdapterError ''rejected''"]
    by blast
  show ?thesis
    using b x l t1 t2 t3 by (simp add: sessionA_fields)
qed


lemma bridge_listeners_handleDisconnect:
  "adapter s = Some a \<Longrightarrow> bridge_listeners (handleDisconnect s) a = []"
  by (auto simp add: bridge_listeners_def bridge_registrations_def handleDisconnect_def
      setWalletName_def setDefaultState_def adapter_off_def off_matches_def Let_def
      filter_empty_conv split: option.splits)

lemma handleDisconnect_session:
  "adapter (handleDisconnect s) = None"
  "session_inv s \<Longrightarrow> wallet (handleDisconnect s) = None \<and> account (handleDisconnect s) = None
     \<and> walletNetwork (handleDisconnect s) = None \<and> \<not> connected (handleDisconnect s)"
  "connecting (handleDisconnect s) = connecting s"
  "disconnecting (handleDisconnect s) = disconnecting s"
  "persisted (handleDisconnect s) = None"
  by (auto simp add: handleDisconnect_def session_inv_def persisted_def
      getWalletNameFromLocalStorage_def
      setWalletName_def setDefaultState_def adapter_off_def Let_def split: option.splits)

lemma disconnect_settles_eq:
  "0 < pendingDisconnects s \<Longrightarrow> disconnect_settles s r = handleDisconnect (before_teardown s r)"
  by (simp add: disconnect_settles_def disconnect_resume_def before_teardown_def split: option.splits)

lemma before_teardown_fields:
  "adapter (before_teardown s r) = adapter s"
  "connecting (before_teardown s r) = connecting s"
  "disconnecting (before_teardown s r) = False"
  by (simp_all add: before_teardown_def setWalletName_def split: option.splits)

lemma inv_before_teardown:
  "session_inv s \<Longrightarrow> 0 < pendingDisconnects s \<Longrightarrow> session_inv (before_teardown s r)"
  by (auto simp add: before_teardown_def session_inv_def setWalletName_def split: option.splits)

section \<open>Teardown\<close>

text \<open>
  Claim C5, as the code has it. In every reachable state with a suspended \<open>disconnect\<close>,
  when the adapter's disconnect operation settles, fulfilled or rejected alike,
  \<open>disconnecting\<close> is false afterwards, the persisted selection is cleared, the active
  adapter carries none of the four bridge listeners, and \<open>wallet\<close>, \<open>adapter\<close>,
  \<open>account\<close>, \<open>network\<close> and \<open>connected\<close> are null or false; \<open>connecting\<close> is left as
  it was. The teardown is \<open>handleDisconnect\<close>, the listener of the adapter's disconnect
  notification.
\<close>

theorem disconnect_teardown:
  "0 < pendingDisconnects (run es (useWallets h ls w)) \<longrightarrow>
     \<not> disconnecting (disconnect_settles (run es (useWallets h ls w)) r)
     \<and> persisted (disconnect_settles (run es (useWallets h ls w)) r) = None
     \<and> (case adapter (run es (useWallets h ls w)) of
           None \<Rightarrow> True
         | Some a \<Rightarrow> bridge_listeners (disconnect_settles (run es (useWallets h ls w)) r) a = [])
     \<and> wallet (disconnect_settles (run es (useWallets h ls w)) r) = None
     \<and> adapter (disconnect_settles (run es (useWallets h ls w)) r) = None
     \<and> account (disconnect_settles (run es (useWallets h ls w)) r) = None
     \<and> walletNetwork (disconnect_settles (run es (useWallets h ls w)) r) = None
     \<and> \<not> connected (disconnect_settles (run es (useWallets h ls w)) r)
     \<and> connecting (disconnect_settles (run es (useWallets h ls w)) r)
         = connecting (run es (useWallets h ls w))
     \<and> call_listener EDisconnect HandleDisconnect (before_teardown (run es (useWallets h ls w)) r)
         = disconnect_settles (run es (useWallets h ls w)) r"
proof
  let ?s = "run es (useWallets h ls w)"
  assume p: "0 < pendingDisconnects ?s"
  have i: "session_inv ?s"
    by (rule inv_run [OF inv_useWallets])
  have j: "session_inv (before_teardown ?s r)"
    by (rule inv_before_teardown [OF i p])
  have e: "disconnect_settles ?s r = handleDisconnect (before_teardown ?s r)"
    by (rule disconnect_settles_eq [OF p])
  have b: "case adapter ?s of None \<Rightarrow> True
         | Some a \<Rightarrow> bridge_listeners (handleDisconnect (before_teardown ?s r)) a = []"
    by (simp add: bridge_listeners_handleDisconnect before_teardown_fields split: option.splits)
  show "\<not> disconnecting (disconnect_settles ?s r)
     \<and> persisted (disconnect_settles ?s r) = None
     \<and> (case adapter ?s of None \<Rightarrow> True
         | Some a \<Rightarrow> bridge_listeners (disconnect_settles ?s r) a = [])
     \<and> wallet (disconnect_settles ?s r) = None
     \<and> adapter (disconnect_settles ?s r) = None
     \<and> account (disconnect_settles ?s r) = None
     \<and> walletNetwork (disconnect_settles ?s r) = None
     \<and> \<not> connected (disconnect_settles ?s r)
     \<and> connecting (disconnect_settles ?s r) = connecting ?s
     \<and> call_listener EDisconnect HandleDisconnect (before_teardown ?s r) = disconnect_settles ?s r"
    unfolding e
    using b handleDisconnect_session(2) [OF j]
    by (simp add: handleDisconnect_session before_teardown_fields call_listener_def)
qed

text \<open>
  The claim as worded fails where \<open>disconnect\<close> is called while a \<open>connect\<close> is
  suspended: the teardown runs, and \<open>connecting\<close> is still true after it, so the session
  is not in the all-null/false state.
\<close>

theorem teardown_leaves_connecting:
  "fst (disconnect sessionA) = Pending \<and> adapter sessionA = Some 0
   \<and> connecting (run [Disconnect, DisconnectSettles None] sessionA)
   \<and> connecting (run [Disconnect, DisconnectSettles (Some (AdapterError ''failed''))] sessionA)"
  by (simp add: exec_defs fixture_defs)

theorem disconnect_teardown_witness:
  "0 < pendingDisconnects (run [Disconnect] connectedA)
   \<and> bridge_listeners (run [Disconnect] connectedA) 0
       = [(AccountChangeEv, HandleAddressChange, 0), (NetworkChangeEv, HandleNetworkChange, 0),
          (DisconnectEv, HandleDisconnect, 0), (ErrorEv, HandleError, 0)]
   \<and> adapter (run [Disconnect] connectedA) = Some 0
   \<and> bridge_listeners (disconnect_settles (run [Disconnect] connectedA) None) 0 = []
   \<and> adapter (disconnect_settles (run [Disconnect] connectedA) (Some (AdapterError ''failed''))) = None
   \<and> \<not> connecting (disconnect_settles (run [Disconnect] connectedA) None)"
proof -
  have s: "run [Disconnect] connectedA
      = run [Init (options [0, 1] (Some 7)), WatchAdapters, Select (Some ''A''), Connect,
             ConnectSettles 0 None, Disconnect] (useWallets heap0 (Some Map.empty) True)"
    by (simp add: connectedA_def sessionA_def fresh0_def)
  have p: "0 < pendingDisconnects (run [Disconnect] connectedA)"
    and a: "adapter (run [Disconnect] connectedA) = Some 0"
    and c: "\<not> connecting (run [Disconnect] connectedA)"
    and b: "bridge_listeners (run [Disconnect] connectedA) 0
       = [(AccountChangeEv, HandleAddressChange, 0), (NetworkChangeEv, HandleNetworkChange, 0),
          (DisconnectEv, HandleDisconnect, 0), (ErrorEv, HandleError, 0)]"
    by (simp_all add: connectedA_def exec_defs fixture_defs bridge_listeners_def
        bridge_registrations_def)
  have t1: "bridge_listeners (disconnect_settles (run [Disconnect] connectedA) None) 0 = []
      \<and> connecting (disconnect_settles (run [Disconnect] connectedA) None)
          = connecting (run [Disconnect] connectedA)"
    using p a
      disconnect_teardown [of "[Init (options [0, 1] (Some 7)), WatchAdapters, Select (Some ''A''),
          Connect, ConnectSettles 0 None, Disconnect]" heap0 "Some Map.empty" True None]
    unfolding s [symmetric] by simp
  have t2: "adapter (disconnect_settles (run [Disconnect] connectedA) (Some (AdapterError ''failed''))) = None"
    using p
      disconnect_teardown [of "[Init (options [0, 1] (Some 7)), WatchAdapters, Select (Some ''A''),
          Connect, ConnectSettles 0 None, Disconnect]" heap0 "Some Map.empty" True
          "Some (AdapterError ''failed'')"]
    unfolding s [symmetric] by simp
  show ?thesis
    using p a b c t1 t2 by simp
qed


section \<open>Where the code misses its aim\<close>

text \<open>
  Claim C1 asks that every failure is handed to the configured error handler and raised to
  the caller. The failures are raised, but no handler call is ever made: after
  \<open>init\<close> with the handler \<open>7\<close> the stored handler is still undefined, and none of
  \<open>WalletNotSelectedError\<close>, \<open>WalletNotReadyError\<close>, \<open>WalletNotConnectedError\<close>, a
  rejection of the adapter's connect or of its disconnect reaches the handler.
\<close>

theorem handler_never_called:
  "onError listedAB = None
   \<and> fst (connect listedAB) = Rejected WalletNotSelectedError
   \<and> handled (snd (connect listedAB)) = []
   \<and> fst (connect selectedB) = Rejected WalletNotReadyError
   \<and> handled (snd (connect selectedB)) = []
   \<and> fst (signTransaction sessionA ''tx'' None (Inr ''signed'')) = Inl WalletNotConnectedError
   \<and> handled (snd (signTransaction sessionA ''tx'' None (Inr ''signed''))) = []
   \<and> handled (run [ConnectSettles 0 (Some (AdapterError ''rejected''))] sessionA) = []
   \<and> handled (run [Disconnect, DisconnectSettles (Some (AdapterError ''failed''))] connectedA) = []"
  by (simp add: exec_defs fixture_defs signTransaction_def)

text \<open>
  Apart from \<open>init\<close>: even in a state that holds a handler, the rejection of the adapter's
  connect or disconnect goes to the caller only; the resumed call does not call
  \<open>handleError\<close>.
\<close>

lemma rejection_bypasses_handler:
  "fst (connect_resume (s\<lparr>onError := Some h\<rparr>) (Some e)) = Rejected e"
  "handled (snd (connect_resume (s\<lparr>onError := Some h\<rparr>) (Some e))) = handled s"
  "fst (disconnect_resume (s\<lparr>onError := Some h\<rparr>) (Some e)) = Rejected e"
  "handled (snd (disconnect_resume (s\<lparr>onError := Some h\<rparr>) (Some e))) = handled s"
  by (simp_all add: connect_resume_def disconnect_resume_def handleDisconnect_def
      setWalletName_def setDefaultState_def adapter_off_def Let_def split: option.splits)

text \<open>
  Claim C7 asks that a change of the adapter list unsubscribes the old readiness listeners
  before subscribing new ones. The clean-up runs on the new list and with new function
  objects, so it removes nothing: after the list \<open>[A]\<close> is replaced by \<open>[B]\<close>, adapter \<open>A\<close>
  still carries its listener; after \<open>[A]\<close> is replaced by a new list \<open>[A]\<close>, adapter
  \<open>A\<close> carries two.
\<close>

theorem registry_swap_keeps_listeners:
  "adapters (run [Init (options [1] None), WatchAdapters] listedA) = [1]
   \<and> readyState_listeners (run [Init (options [1] None), WatchAdapters] listedA) 0
       = [(ReadyStateChangeEv, ReadyStateArrow 0 0, 0)]
   \<and> readyState_listeners (run [Init (options [0] None), WatchAdapters] listedA) 0
       = [(ReadyStateChangeEv, ReadyStateArrow 0 0, 0), (ReadyStateChangeEv, ReadyStateArrow 2 0, 0)]"
  by (simp add: exec_defs fixture_defs readyState_listeners_def)

end
